theory Spec2Isabelle
  imports Complex_Main
begin

section \<open>Vector3\<close>

text \<open>
  The class \<^verbatim>\<open>Vector3\<close> of \<^verbatim>\<open>src/data/scripts/utils.ts\<close>: three fields of
  type \<^verbatim>\<open>number\<close>. Every method is a function of the receiver (\<open>self\<close>) and its
  arguments, and a \<^verbatim>\<open>throw\<close> is the \<open>Inl\<close> branch of a sum. In the definitions of
  this part the numbers are reals and the arithmetic is exact: they say which branch a
  method takes and what it computes before rounding. What \<^verbatim>\<open>magnitude\<close> returns in
  the arithmetic of doubles, rounding and underflow included, is defined after them.
\<close>

record Vector3 =
  x :: real
  y :: real
  z :: real







definition Vector3_magnitude :: "Vector3 \<Rightarrow> real" where
  "Vector3_magnitude self = sqrt ((x self)\<^sup>2 + (y self)\<^sup>2 + (z self)\<^sup>2)"










subsection \<open>magnitude in the arithmetic of doubles\<close>

text \<open>
  A \<^verbatim>\<open>number\<close> is an IEEE 754 binary64 value. A finite double is a real of the form
  \<open>m * 2 ^ e\<close> with an integer \<open>\<bar>m\<bar> < 2 ^ 53\<close> and \<open>- 1074 \<le> e\<close>; every operation returns
  the exact result rounded to the nearest such real, ties to the even \<open>m\<close>, and
  \<^verbatim>\<open>Infinity\<close> when the rounded result reaches \<open>2 ^ 1024\<close>. \<open>ulpExponent r\<close> is the
  exponent \<open>e\<close> of the doubles around \<open>r\<close>: \<open>52\<close> below the binary exponent of \<open>r\<close>, and
  \<open>- 1074\<close> in the subnormal range. \<^verbatim>\<open>magnitude\<close> rounds only reals that are not
  negative (squares, their sums and a square root), so one infinity is enough, and
  \<^verbatim>\<open>NaN\<close> does not arise from finite components. \<^verbatim>\<open>x ** 2\<close> and \<^verbatim>\<open>Math.sqrt\<close> are
  taken to be correctly rounded.
\<close>

datatype number = Finite real | Infinity

definition roundTiesToEven :: "real \<Rightarrow> int" where
  "roundTiesToEven q =
     (let f = \<lfloor>q\<rfloor>
      in if q - of_int f < 1 / 2 then f
         else if 1 / 2 < q - of_int f then f + 1
         else if even f then f else f + 1)"

definition ulpExponent :: "real \<Rightarrow> int" where
  "ulpExponent r = max (\<lfloor>log 2 \<bar>r\<bar>\<rfloor> - 52) (- 1074)"

definition toDouble :: "real \<Rightarrow> number" where
  "toDouble r =
     (if r = 0 then Finite 0
      else let e = ulpExponent r;
               v = of_int (roundTiesToEven (r / 2 powr of_int e)) * 2 powr of_int e
           in if 2 ^ 1024 \<le> \<bar>v\<bar> then Infinity else Finite v)"

definition number_square :: "real \<Rightarrow> number" where
  "number_square u = toDouble (u * u)"

definition number_add :: "number \<Rightarrow> number \<Rightarrow> number" where
  "number_add a b =
     (case (a, b) of (Finite u, Finite v) \<Rightarrow> toDouble (u + v) | _ \<Rightarrow> Infinity)"

definition number_sqrt :: "number \<Rightarrow> number" where
  "number_sqrt a = (case a of Finite u \<Rightarrow> toDouble (sqrt u) | Infinity \<Rightarrow> Infinity)"

text \<open>\<^verbatim>\<open>Math.sqrt(this.x ** 2 + this.y ** 2 + this.z ** 2)\<close>, for a vector whose
  components are finite doubles; the sum associates to the left.\<close>

definition Vector3_magnitude_double :: "Vector3 \<Rightarrow> number" where
  "Vector3_magnitude_double self =
     number_sqrt
       (number_add (number_add (number_square (x self)) (number_square (y self)))
          (number_square (z self)))"

text \<open>The vector \<^verbatim>\<open>new Vector3(1e-200, 0, 0)\<close>: the literal \<^verbatim>\<open>1e-200\<close> is the double
  \<open>6894565328877484 * 2 ^ - 717\<close>.\<close>

definition tinyVector :: Vector3 where
  "tinyVector = \<lparr>x = 6894565328877484 / 2 ^ 717, y = 0, z = 0\<rparr>"

section \<open>BlockMatcher\<close>

subsection \<open>Data\<close>

text \<open>
  The argument of \<^verbatim>\<open>matchBlocks\<close>: a trigger block (a block type and a location) and
  the list of blocks to check, each an offset triple with a block type. The field
  \<^verbatim>\<open>blockType\<close> of the trigger block is \<open>triggerBlockType\<close> here (the two records
  cannot share a field name), and the field \<^verbatim>\<open>destroyBlocks\<close> of the options is
  \<open>shouldDestroyBlocks\<close>, the name the method binds it to.

  A block of the list is a JavaScript object with the two properties \<^verbatim>\<open>offset\<close> and
  \<^verbatim>\<open>blockType\<close>. The order in which an object holds its properties is part of the
  object and shows in its serialisation, so the model keeps it: \<open>keyOrder\<close> says which
  of the two properties the object holds first. The caller chooses it for the blocks
  it passes; an object the method builds with the literal
  \<^verbatim>\<open>{ offset: ..., blockType: ... }\<close> holds \<^verbatim>\<open>offset\<close> first.
\<close>

datatype KeyOrder = OffsetFirst | BlockTypeFirst

record Block =
  offset :: "real \<times> real \<times> real"
  blockType :: string
  keyOrder :: KeyOrder

record TriggerBlock =
  triggerBlockType :: string
  location :: Vector3

record Pattern =
  triggerBlock :: TriggerBlock
  pattern :: "Block list"

record Options =
  shouldDestroyBlocks :: bool

text \<open>
  The object \<^verbatim>\<open>matchBlocks\<close> returns: \<^verbatim>\<open>{ matched: false }\<close>, or
  \<^verbatim>\<open>{ matched: true, combination, center }\<close>; a field that is not there is \<open>None\<close>.
\<close>

record MatchResult =
  matched :: bool
  combination :: "Block list option"
  center :: "Vector3 option"

subsection \<open>The world\<close>

text \<open>
  Modelled from the spec: the world belongs to the game (\<^verbatim>\<open>@minecraft/server\<close>), not
  to this repository. The block lookup, "given an absolute location, returns the
  block-type identifier present there, or an absent value": \<open>blockTypeId w l\<close> is
  \<^verbatim>\<open>dimension.getBlock(l)?.typeId\<close>, with \<open>None\<close> for \<^verbatim>\<open>undefined\<close>. The game rule
  \<^verbatim>\<open>world.gameRules.doTileDrops\<close> is a flag that is read and written. The world also
  records the sequence of the calls made to it so far, oldest first, so that the order
  of lookups, removals and writes of the flag can be stated.
\<close>

datatype WorldCall =
    GetBlock Vector3
  | SetDoTileDrops bool
  | SetblockAirDestroy Vector3

record World =
  blockTypeId :: "Vector3 \<Rightarrow> string option"
  doTileDrops :: bool
  calls :: "WorldCall list"

definition getBlock_typeId :: "World \<Rightarrow> Vector3 \<Rightarrow> string option \<times> World" where
  "getBlock_typeId w checkLocation =
     (blockTypeId w checkLocation, w\<lparr>calls := calls w @ [GetBlock checkLocation]\<rparr>)"

definition set_doTileDrops :: "World \<Rightarrow> bool \<Rightarrow> World" where
  "set_doTileDrops w b = w\<lparr>doTileDrops := b, calls := calls w @ [SetDoTileDrops b]\<rparr>"

text \<open>
  Modelled from the spec: the command \<^verbatim>\<open>setblock x y z air destroy\<close> is run by the
  game, not by this repository. The spec's block removal "destructively clears the block
  there", after which the location "reads as empty/air": the block type at the location
  becomes \<^verbatim>\<open>minecraft:air\<close> and no other location changes.
\<close>

definition runCommand_setblock_air_destroy :: "World \<Rightarrow> Vector3 \<Rightarrow> World" where
  "runCommand_setblock_air_destroy w l =
     w\<lparr>blockTypeId := (blockTypeId w)(l := Some ''minecraft:air''),
       calls := calls w @ [SetblockAirDestroy l]\<rparr>"

subsection \<open>checkCombination and destroyBlocks\<close>

text \<open>The location \<^verbatim>\<open>new Vector3(baseLocation.x + offsetX, baseLocation.y + offsetY,
  baseLocation.z + offsetZ)\<close> that both loops compute for a block of a combination.\<close>

definition offsetLocation :: "Vector3 \<Rightarrow> Block \<Rightarrow> Vector3" where
  "offsetLocation baseLocation block =
     (case offset block of (offsetX, offsetY, offsetZ) \<Rightarrow>
        \<lparr>x = x baseLocation + offsetX, y = y baseLocation + offsetY,
         z = z baseLocation + offsetZ\<rparr>)"

fun checkCombination :: "World \<Rightarrow> Vector3 \<Rightarrow> Block list \<Rightarrow> bool \<times> World" where
  "checkCombination w baseLocation [] = (True, w)"
| "checkCombination w baseLocation (block # rest) =
     (case getBlock_typeId w (offsetLocation baseLocation block) of
        (observed, w') \<Rightarrow>
          if observed \<noteq> Some (blockType block) then (False, w')
          else checkCombination w' baseLocation rest)"

definition destroyBlock :: "World \<Rightarrow> Vector3 \<Rightarrow> World" where
  "destroyBlock w l =
     set_doTileDrops (runCommand_setblock_air_destroy (set_doTileDrops w False) l) True"

fun destroyRest :: "World \<Rightarrow> Vector3 \<Rightarrow> Block list \<Rightarrow> World" where
  "destroyRest w baseLocation [] = w"
| "destroyRest w baseLocation (block # rest) =
     destroyRest (destroyBlock w (offsetLocation baseLocation block)) baseLocation rest"

definition destroyBlocks :: "World \<Rightarrow> Vector3 \<Rightarrow> Block list \<Rightarrow> World" where
  "destroyBlocks w baseLocation c =
     destroyRest (destroyBlock w baseLocation) baseLocation c"

subsection \<open>generateCombinations\<close>

definition rotations :: "Block list \<Rightarrow> Block list list" where
  "rotations p =
     [p,
      map (\<lambda>b. case offset b of (a0, a1, a2) \<Rightarrow> \<lparr>offset = (a2, a1, - a0), blockType = blockType b, keyOrder = OffsetFirst\<rparr>) p,
      map (\<lambda>b. case offset b of (a0, a1, a2) \<Rightarrow> \<lparr>offset = (- a0, a1, - a2), blockType = blockType b, keyOrder = OffsetFirst\<rparr>) p,
      map (\<lambda>b. case offset b of (a0, a1, a2) \<Rightarrow> \<lparr>offset = (- a2, a1, a0), blockType = blockType b, keyOrder = OffsetFirst\<rparr>) p,
      map (\<lambda>b. case offset b of (a0, a1, a2) \<Rightarrow> \<lparr>offset = (a0, - a2, a1), blockType = blockType b, keyOrder = OffsetFirst\<rparr>) p,
      map (\<lambda>b. case offset b of (a0, a1, a2) \<Rightarrow> \<lparr>offset = (a0, - a1, - a2), blockType = blockType b, keyOrder = OffsetFirst\<rparr>) p,
      map (\<lambda>b. case offset b of (a0, a1, a2) \<Rightarrow> \<lparr>offset = (a0, a2, - a1), blockType = blockType b, keyOrder = OffsetFirst\<rparr>) p,
      map (\<lambda>b. case offset b of (a0, a1, a2) \<Rightarrow> \<lparr>offset = (- a1, a0, a2), blockType = blockType b, keyOrder = OffsetFirst\<rparr>) p,
      map (\<lambda>b. case offset b of (a0, a1, a2) \<Rightarrow> \<lparr>offset = (- a0, - a1, a2), blockType = blockType b, keyOrder = OffsetFirst\<rparr>) p,
      map (\<lambda>b. case offset b of (a0, a1, a2) \<Rightarrow> \<lparr>offset = (a1, - a0, a2), blockType = blockType b, keyOrder = OffsetFirst\<rparr>) p]"

definition reflections :: "Block list list \<Rightarrow> Block list list" where
  "reflections rs =
     concat (map (\<lambda>rotation.
       [rotation,
        map (\<lambda>b. case offset b of (a0, a1, a2) \<Rightarrow> \<lparr>offset = (- a0, a1, a2), blockType = blockType b, keyOrder = OffsetFirst\<rparr>) rotation,
        map (\<lambda>b. case offset b of (a0, a1, a2) \<Rightarrow> \<lparr>offset = (a0, - a1, - a2), blockType = blockType b, keyOrder = OffsetFirst\<rparr>) rotation,
        map (\<lambda>b. case offset b of (a0, a1, a2) \<Rightarrow> \<lparr>offset = (a0, a1, - a2), blockType = blockType b, keyOrder = OffsetFirst\<rparr>) rotation]) rs)"

text \<open>
  \<^verbatim>\<open>new Set(reflections.map(rotation => JSON.stringify(rotation)))\<close> inserts the
  serialised variants one by one and keeps a text it already holds where it is;
  \<^verbatim>\<open>Array.from\<close> lists the set in insertion order and \<^verbatim>\<open>JSON.parse\<close> turns each
  text back into a variant. The text of a variant lists, block by block, the two
  properties in the order the object holds them, the three numbers of the offset and the
  block type. On real offsets and strings two variants therefore have the same text
  exactly when they agree in all of these, \<open>keyOrder\<close> included, and parsing the text
  gives the variant back with the same order of properties. So the set of texts is
  modelled as the list of the variants themselves, compared as records with their
  \<open>keyOrder\<close>. The first candidate is the caller's own list (\<^verbatim>\<open>rotations.push(pattern)\<close>),
  with the caller's order of properties; the other 39 are built by the method.
\<close>

definition Set_add :: "'a list \<Rightarrow> 'a \<Rightarrow> 'a list" where
  "Set_add s a = (if a \<in> set s then s else s @ [a])"

definition uniquePatterns :: "'a list \<Rightarrow> 'a list" where
  "uniquePatterns xs = foldl Set_add [] xs"

definition generateCombinations :: "Block list \<Rightarrow> Block list list" where
  "generateCombinations p = uniquePatterns (reflections (rotations p))"

subsection \<open>matchBlocks\<close>

fun matchLoop :: "World \<Rightarrow> TriggerBlock \<Rightarrow> bool \<Rightarrow> Block list list \<Rightarrow> MatchResult \<times> World" where
  "matchLoop w trigger destroy [] =
     (\<lparr>matched = False, combination = None, center = None\<rparr>, w)"
| "matchLoop w trigger destroy (c # cs) =
     (case checkCombination w (location trigger) c of
        (ok, w') \<Rightarrow>
          if ok
          then (\<lparr>matched = True, combination = Some c, center = Some (location trigger)\<rparr>,
                if destroy then destroyBlocks w' (location trigger) c else w')
          else matchLoop w' trigger destroy cs)"

definition matchBlocks :: "World \<Rightarrow> Pattern \<Rightarrow> Options \<Rightarrow> MatchResult \<times> World" where
  "matchBlocks w p options =
     (let blocksToCheck = pattern p;
          possibleCombinations = generateCombinations blocksToCheck
      in matchLoop w (triggerBlock p) (shouldDestroyBlocks options) possibleCombinations)"

section \<open>Vocabulary of the properties\<close>

text \<open>
  The definitions below are not code of the repository: they are the words in which the
  behaviour of the matcher is stated. A block of a combination matches when the world
  holds its block type at its location; a combination matches when all its blocks do.
\<close>

definition blockMatches :: "(Vector3 \<Rightarrow> string option) \<Rightarrow> Vector3 \<Rightarrow> Block \<Rightarrow> bool" where
  "blockMatches bl base b = (bl (offsetLocation base b) = Some (blockType b))"

definition combinationMatches ::
  "(Vector3 \<Rightarrow> string option) \<Rightarrow> Vector3 \<Rightarrow> Block list \<Rightarrow> bool" where
  "combinationMatches bl base c = list_all (blockMatches bl base) c"

text \<open>The locations of the blocks of a combination up to and including the first one
  that does not match (all of them when every block matches).\<close>

definition lookupLocations ::
  "(Vector3 \<Rightarrow> string option) \<Rightarrow> Vector3 \<Rightarrow> Block list \<Rightarrow> Vector3 list" where
  "lookupLocations bl base c =
     map (offsetLocation base) (take (Suc (length (takeWhile (blockMatches bl base) c))) c)"

text \<open>The combinations of a list up to and including the first one that matches (all
  of them when none matches).\<close>

definition scanned ::
  "(Vector3 \<Rightarrow> string option) \<Rightarrow> Vector3 \<Rightarrow> Block list list \<Rightarrow> Block list list" where
  "scanned bl base cs =
     take (Suc (length (takeWhile (\<lambda>c. \<not> combinationMatches bl base c) cs))) cs"

definition destroyedLocations :: "Vector3 \<Rightarrow> Block list \<Rightarrow> Vector3 list" where
  "destroyedLocations base c = base # map (offsetLocation base) c"

definition removalCalls :: "Vector3 list \<Rightarrow> WorldCall list" where
  "removalCalls ls =
     concat (map (\<lambda>l. [SetDoTileDrops False, SetblockAirDestroy l, SetDoTileDrops True]) ls)"

definition noMatch :: MatchResult where
  "noMatch = \<lparr>matched = False, combination = None, center = None\<rparr>"

definition matchedAt :: "Block list \<Rightarrow> Vector3 \<Rightarrow> MatchResult" where
  "matchedAt c l = \<lparr>matched = True, combination = Some c, center = Some l\<rparr>"

text \<open>The elements of a list that occur there for the first time, in the order of the
  list: deduplication with first-occurrence survivors, in the spec's words.\<close>

definition firstOccurrences :: "'a list \<Rightarrow> 'a list" where
  "firstOccurrences xs =
     map (\<lambda>i. xs ! i) (filter (\<lambda>i. xs ! i \<notin> set (take i xs)) [0..<length xs])"

text \<open>
  The variants in the spec's words. Two variants are structurally equal when they have
  "the same offsets and block types in the same order": \<open>shape\<close> keeps exactly that of
  a variant. The spec keeps the ten rotations of the source and combines each with four
  reflections, "identity reflection plus mirror across each of the X, Y, Z axes", a
  mirror negating the coordinate of its axis; the variants are the candidates
  "deduplicated by exact structural equality", first occurrences surviving in order.
\<close>

definition shape :: "Block list \<Rightarrow> ((real \<times> real \<times> real) \<times> string) list" where
  "shape c = map (\<lambda>b. (offset b, blockType b)) c"

definition specRotations :: "(real \<times> real \<times> real \<Rightarrow> real \<times> real \<times> real) list" where
  "specRotations =
     [id,
      \<lambda>(a0, a1, a2). (a2, a1, - a0),
      \<lambda>(a0, a1, a2). (- a0, a1, - a2),
      \<lambda>(a0, a1, a2). (- a2, a1, a0),
      \<lambda>(a0, a1, a2). (a0, - a2, a1),
      \<lambda>(a0, a1, a2). (a0, - a1, - a2),
      \<lambda>(a0, a1, a2). (a0, a2, - a1),
      \<lambda>(a0, a1, a2). (- a1, a0, a2),
      \<lambda>(a0, a1, a2). (- a0, - a1, a2),
      \<lambda>(a0, a1, a2). (a1, - a0, a2)]"

definition specReflections :: "(real \<times> real \<times> real \<Rightarrow> real \<times> real \<times> real) list" where
  "specReflections =
     [id,
      \<lambda>(a0, a1, a2). (- a0, a1, a2),
      \<lambda>(a0, a1, a2). (a0, - a1, a2),
      \<lambda>(a0, a1, a2). (a0, a1, - a2)]"

definition specCandidates :: "Block list \<Rightarrow> ((real \<times> real \<times> real) \<times> string) list list" where
  "specCandidates p =
     concat (map (\<lambda>r. map (\<lambda>m. map (\<lambda>(a, t). (m (r a), t)) (shape p)) specReflections)
       specRotations)"

definition specVariants :: "Block list \<Rightarrow> ((real \<times> real \<times> real) \<times> string) list list" where
  "specVariants p = firstOccurrences (specCandidates p)"

text \<open>The locations looked up and the locations removed, read off a sequence of calls.\<close>

definition lookups :: "WorldCall list \<Rightarrow> Vector3 list" where
  "lookups cs = concat (map (\<lambda>c. case c of GetBlock l \<Rightarrow> [l] | _ \<Rightarrow> []) cs)"

definition removals :: "WorldCall list \<Rightarrow> Vector3 list" where
  "removals cs = concat (map (\<lambda>c. case c of SetblockAirDestroy l \<Rightarrow> [l] | _ \<Rightarrow> []) cs)"

section \<open>An example world\<close>

text \<open>
  A diamond block at the anchor, with two iron blocks above it and nothing else; the
  pattern asks for two iron blocks below the anchor. The pattern as given does not match,
  its second variant (mirrored to point upwards) does.
\<close>

definition exampleAnchor :: Vector3 where
  "exampleAnchor = \<lparr>x = 10, y = 64, z = - 3\<rparr>"

definition examplePattern :: Pattern where
  "examplePattern =
     \<lparr>triggerBlock = \<lparr>triggerBlockType = ''minecraft:diamond_block'', location = exampleAnchor\<rparr>,
      pattern = [\<lparr>offset = (0, - 1, 0), blockType = ''minecraft:iron_block'', keyOrder = OffsetFirst\<rparr>,
                 \<lparr>offset = (0, - 2, 0), blockType = ''minecraft:iron_block'', keyOrder = OffsetFirst\<rparr>]\<rparr>"

definition exampleWorld :: World where
  "exampleWorld =
     \<lparr>blockTypeId = (\<lambda>l. if l = \<lparr>x = 10, y = 64, z = - 3\<rparr> then Some ''minecraft:diamond_block''
                          else if l = \<lparr>x = 10, y = 65, z = - 3\<rparr> then Some ''minecraft:iron_block''
                          else if l = \<lparr>x = 10, y = 66, z = - 3\<rparr> then Some ''minecraft:iron_block''
                          else None),
      doTileDrops = False,
      calls = []\<rparr>"

text \<open>
  Two further patterns of one block each. The first is written with \<^verbatim>\<open>blockType\<close> before
  \<^verbatim>\<open>offset\<close>, as in \<^verbatim>\<open>[{ blockType: "a", offset: [0, 0, 0] }]\<close>; the second has an
  offset with three different coordinates, \<^verbatim>\<open>[{ offset: [1, 2, 3], blockType: "a" }]\<close>.
\<close>

definition keyOrderPattern :: "Block list" where
  "keyOrderPattern = [\<lparr>offset = (0, 0, 0), blockType = ''a'', keyOrder = BlockTypeFirst\<rparr>]"

definition asymmetricPattern :: "Block list" where
  "asymmetricPattern = [\<lparr>offset = (1, 2, 3), blockType = ''a'', keyOrder = OffsetFirst\<rparr>]"

definition exampleVariant :: "Block list" where
  "exampleVariant =
     [\<lparr>offset = (0, 1, 0), blockType = ''minecraft:iron_block'', keyOrder = OffsetFirst\<rparr>,
      \<lparr>offset = (0, 2, 0), blockType = ''minecraft:iron_block'', keyOrder = OffsetFirst\<rparr>]"

section \<open>The effects of the matcher\<close>

lemma checkCombination_eq:
  "checkCombination w base c =
     (combinationMatches (blockTypeId w) base c,
      w\<lparr>calls := calls w @ map GetBlock (lookupLocations (blockTypeId w) base c)\<rparr>)"
proof (induction c arbitrary: w)
  case Nil
  show ?case by (simp add: combinationMatches_def lookupLocations_def)
next
  case (Cons b bs)
  show ?case
    by (simp add: Cons.IH getBlock_typeId_def combinationMatches_def lookupLocations_def
        blockMatches_def)
qed

lemma destroyBlock_eq:
  "destroyBlock w l =
     \<lparr>blockTypeId = (blockTypeId w)(l := Some ''minecraft:air''), doTileDrops = True,
      calls = calls w @ [SetDoTileDrops False, SetblockAirDestroy l, SetDoTileDrops True]\<rparr>"
  by (simp add: destroyBlock_def set_doTileDrops_def runCommand_setblock_air_destroy_def)

lemma destroyRest_eq:
  "destroyRest w base c =
     w\<lparr>blockTypeId := (\<lambda>l. if l \<in> set (map (offsetLocation base) c)
                            then Some ''minecraft:air'' else blockTypeId w l),
       doTileDrops := (if c = [] then doTileDrops w else True),
       calls := calls w @ removalCalls (map (offsetLocation base) c)\<rparr>"
proof (induction c arbitrary: w)
  case Nil
  show ?case by (simp add: removalCalls_def)
next
  case (Cons b bs)
  show ?case
    by (simp add: Cons.IH destroyBlock_eq removalCalls_def fun_eq_iff)
qed

lemma destroyBlocks_eq:
  "destroyBlocks w base c =
     \<lparr>blockTypeId = (\<lambda>l. if l \<in> set (destroyedLocations base c)
                            then Some ''minecraft:air'' else blockTypeId w l),
       doTileDrops = True,
       calls = calls w @ removalCalls (destroyedLocations base c)\<rparr>"
  by (simp add: destroyBlocks_def destroyRest_eq destroyBlock_eq destroyedLocations_def
      removalCalls_def fun_eq_iff)

lemma matchLoop_eq:
  "matchLoop w t d cs =
     (let bl = blockTypeId w; base = location t;
          w' = w\<lparr>calls := calls w
                 @ map GetBlock (concat (map (lookupLocations bl base) (scanned bl base cs)))\<rparr>
      in case find (combinationMatches bl base) cs of
           None \<Rightarrow> (noMatch, w')
         | Some c \<Rightarrow> (matchedAt c base, if d then destroyBlocks w' base c else w'))"
proof (induction cs arbitrary: w)
  case Nil
  show ?case by (simp add: scanned_def noMatch_def)
next
  case (Cons c cs)
  show ?case
    by (simp add: Cons.IH checkCombination_eq scanned_def Let_def noMatch_def matchedAt_def
        split: option.split)
qed

lemma matchBlocks_eq:
  "matchBlocks w p options =
     (let bl = blockTypeId w; base = location (triggerBlock p);
          cs = generateCombinations (pattern p);
          w' = w\<lparr>calls := calls w
                 @ map GetBlock (concat (map (lookupLocations bl base) (scanned bl base cs)))\<rparr>
      in case find (combinationMatches bl base) cs of
           None \<Rightarrow> (noMatch, w')
         | Some c \<Rightarrow>
             (matchedAt c base,
              if shouldDestroyBlocks options then destroyBlocks w' base c else w'))"
  by (simp add: matchBlocks_def matchLoop_eq Let_def)

lemma scanned_find:
  "scanned bl base cs =
     takeWhile (\<lambda>c. \<not> combinationMatches bl base c) cs
     @ (case find (combinationMatches bl base) cs of None \<Rightarrow> [] | Some c \<Rightarrow> [c])"
  by (induction cs) (simp_all add: scanned_def)

section \<open>The variants\<close>

lemma set_foldl_Set_add: "set (foldl Set_add acc xs) = set acc \<union> set xs"
  by (induction xs arbitrary: acc) (auto simp: Set_add_def)

lemma prefix_foldl_Set_add: "take (length acc) (foldl Set_add acc xs) = acc"
proof (induction xs arbitrary: acc)
  case Nil
  show ?case by simp
next
  case (Cons a xs)
  have "take (length acc) (foldl Set_add (Set_add acc a) xs)
        = take (length acc) (take (length (Set_add acc a)) (foldl Set_add (Set_add acc a) xs))"
    by (simp add: Set_add_def min_def)
  also have "\<dots> = take (length acc) (Set_add acc a)"
    by (simp only: Cons.IH)
  also have "\<dots> = acc"
    by (simp add: Set_add_def)
  finally show ?case by simp
qed

lemma firstOccurrences_snoc:
  "firstOccurrences (xs @ [a]) = firstOccurrences xs @ (if a \<in> set xs then [] else [a])"
proof -
  have keep: "filter (\<lambda>i. (xs @ [a]) ! i \<notin> set (take i (xs @ [a]))) [0..<length xs]
              = filter (\<lambda>i. xs ! i \<notin> set (take i xs)) [0..<length xs]"
    by (rule filter_cong) (auto simp: nth_append)
  have same: "map (\<lambda>i. (xs @ [a]) ! i) (filter (\<lambda>i. xs ! i \<notin> set (take i xs)) [0..<length xs])
              = map (\<lambda>i. xs ! i) (filter (\<lambda>i. xs ! i \<notin> set (take i xs)) [0..<length xs])"
    by (rule map_cong) (auto simp: nth_append)
  have last: "map (\<lambda>i. (xs @ [a]) ! i)
                (filter (\<lambda>i. (xs @ [a]) ! i \<notin> set (take i (xs @ [a]))) [length xs])
              = (if a \<in> set xs then [] else [a])"
    by simp
  have "firstOccurrences (xs @ [a])
        = map (\<lambda>i. (xs @ [a]) ! i)
            (filter (\<lambda>i. (xs @ [a]) ! i \<notin> set (take i (xs @ [a]))) ([0..<length xs] @ [length xs]))"
    unfolding firstOccurrences_def by simp
  also have "\<dots> = map (\<lambda>i. xs ! i) (filter (\<lambda>i. xs ! i \<notin> set (take i xs)) [0..<length xs])
                    @ (if a \<in> set xs then [] else [a])"
    unfolding filter_append map_append keep same last ..
  finally show ?thesis
    unfolding firstOccurrences_def .
qed

lemma uniquePatterns_firstOccurrences: "uniquePatterns xs = firstOccurrences xs"
proof (induction xs rule: rev_induct)
  case Nil
  show ?case by (simp add: uniquePatterns_def firstOccurrences_def)
next
  case (snoc a xs)
  have "set (uniquePatterns xs) = set xs"
    by (simp add: uniquePatterns_def set_foldl_Set_add)
  then show ?case
    using snoc.IH by (simp add: uniquePatterns_def firstOccurrences_snoc Set_add_def)
qed

lemma set_firstOccurrences: "set (firstOccurrences xs) = set xs"
  by (simp add: uniquePatterns_firstOccurrences [symmetric] uniquePatterns_def
      set_foldl_Set_add)

lemma set_generateCombinations:
  "set (generateCombinations p) = set (reflections (rotations p))"
  by (simp add: generateCombinations_def uniquePatterns_def set_foldl_Set_add)

lemma length_reflections_rotations: "length (reflections (rotations p)) = 40"
  by (simp add: reflections_def rotations_def)

lemma reflections_rotations_first:
  "reflections (rotations p) = p # tl (reflections (rotations p))"
  by (simp add: reflections_def rotations_def)

lemma generateCombinations_first: "take 1 (generateCombinations p) = [p]"
proof -
  have "generateCombinations p = foldl Set_add [p] (tl (reflections (rotations p)))"
    unfolding generateCombinations_def uniquePatterns_def
    by (subst reflections_rotations_first) (simp add: Set_add_def)
  then show ?thesis
    using prefix_foldl_Set_add [of "[p]" "tl (reflections (rotations p))"] by simp
qed

lemma generateCombinations_Nil: "generateCombinations [] = [[]]"
  by (simp add: generateCombinations_def uniquePatterns_def reflections_def rotations_def
      Set_add_def)

section \<open>Calls made by the matcher\<close>

lemma lookups_append: "lookups (xs @ ys) = lookups xs @ lookups ys"
  by (simp add: lookups_def)

lemma lookups_GetBlock: "lookups (map GetBlock ls) = ls"
  by (induction ls) (simp_all add: lookups_def)

lemma lookups_removalCalls: "lookups (removalCalls ls) = []"
  by (induction ls) (simp_all add: lookups_def removalCalls_def)

lemma removals_append: "removals (xs @ ys) = removals xs @ removals ys"
  by (simp add: removals_def)

lemma removals_GetBlock: "removals (map GetBlock ls) = []"
  by (induction ls) (simp_all add: removals_def)

lemma removals_removalCalls: "removals (removalCalls ls) = ls"
  by (induction ls) (simp_all add: removals_def removalCalls_def)

lemma find_first_index:
  "find P xs = Some a \<Longrightarrow>
     length (takeWhile (\<lambda>c. \<not> P c) xs) < length xs
     \<and> xs ! length (takeWhile (\<lambda>c. \<not> P c) xs) = a \<and> P a
     \<and> (\<forall>j < length (takeWhile (\<lambda>c. \<not> P c) xs). \<not> P (xs ! j))"
proof (induction xs)
  case Nil
  then show ?case by simp
next
  case (Cons c cs)
  show ?case
  proof (cases "P c")
    case True
    with Cons.prems show ?thesis by simp
  next
    case False
    with Cons.prems have "find P cs = Some a" by simp
    from Cons.IH [OF this] False show ?thesis
      by (auto simp: nth_Cons split: nat.splits)
  qed
qed

lemma find_None_all: "find P xs = None \<Longrightarrow> \<forall>c \<in> set xs. \<not> P c"
  by (simp add: find_None_iff)

lemma matchBlocks_lookups:
  "lookups (calls (snd (matchBlocks w p options))) =
     lookups (calls w)
     @ concat (map (lookupLocations (blockTypeId w) (location (triggerBlock p)))
         (scanned (blockTypeId w) (location (triggerBlock p)) (generateCombinations (pattern p))))"
  by (simp add: matchBlocks_eq Let_def destroyBlocks_eq lookups_append lookups_GetBlock
      lookups_removalCalls split: option.split)

section \<open>The example, evaluated\<close>

lemma example_anchor: "location (triggerBlock examplePattern) = exampleAnchor"
  by (simp add: examplePattern_def)

lemma example_calls: "calls exampleWorld = []"
  by (simp add: exampleWorld_def)

lemma example_variants:
  "generateCombinations (pattern examplePattern) =
     [pattern examplePattern, exampleVariant,
      [\<lparr>offset = (0, 0, - 1), blockType = ''minecraft:iron_block'', keyOrder = OffsetFirst\<rparr>,
       \<lparr>offset = (0, 0, - 2), blockType = ''minecraft:iron_block'', keyOrder = OffsetFirst\<rparr>],
      [\<lparr>offset = (0, 0, 1), blockType = ''minecraft:iron_block'', keyOrder = OffsetFirst\<rparr>,
       \<lparr>offset = (0, 0, 2), blockType = ''minecraft:iron_block'', keyOrder = OffsetFirst\<rparr>],
      [\<lparr>offset = (1, 0, 0), blockType = ''minecraft:iron_block'', keyOrder = OffsetFirst\<rparr>,
       \<lparr>offset = (2, 0, 0), blockType = ''minecraft:iron_block'', keyOrder = OffsetFirst\<rparr>],
      [\<lparr>offset = (- 1, 0, 0), blockType = ''minecraft:iron_block'', keyOrder = OffsetFirst\<rparr>,
       \<lparr>offset = (- 2, 0, 0), blockType = ''minecraft:iron_block'', keyOrder = OffsetFirst\<rparr>]]"
  by (simp add: examplePattern_def exampleVariant_def generateCombinations_def
      uniquePatterns_def reflections_def rotations_def Set_add_def)

lemma example_pattern_fails:
  "\<not> combinationMatches (blockTypeId exampleWorld) exampleAnchor (pattern examplePattern)"
  by (simp add: combinationMatches_def blockMatches_def offsetLocation_def exampleWorld_def
      exampleAnchor_def examplePattern_def)

lemma example_variant_matches:
  "combinationMatches (blockTypeId exampleWorld) exampleAnchor exampleVariant"
  by (simp add: combinationMatches_def blockMatches_def offsetLocation_def exampleWorld_def
      exampleAnchor_def exampleVariant_def)

lemma example_find:
  "find (combinationMatches (blockTypeId exampleWorld) exampleAnchor)
     (generateCombinations (pattern examplePattern)) = Some exampleVariant"
  by (simp add: example_variants example_pattern_fails example_variant_matches)

lemma example_scanned:
  "scanned (blockTypeId exampleWorld) exampleAnchor (generateCombinations (pattern examplePattern))
   = [pattern examplePattern, exampleVariant]"
  by (simp add: scanned_def example_variants example_pattern_fails example_variant_matches)

lemma example_lookups_pattern:
  "lookupLocations (blockTypeId exampleWorld) exampleAnchor (pattern examplePattern)
   = [\<lparr>x = 10, y = 63, z = - 3\<rparr>]"
  by (simp add: lookupLocations_def blockMatches_def offsetLocation_def exampleWorld_def
      exampleAnchor_def examplePattern_def)

lemma example_lookups_variant:
  "lookupLocations (blockTypeId exampleWorld) exampleAnchor exampleVariant
   = [\<lparr>x = 10, y = 65, z = - 3\<rparr>, \<lparr>x = 10, y = 66, z = - 3\<rparr>]"
  by (simp add: lookupLocations_def blockMatches_def offsetLocation_def exampleWorld_def
      exampleAnchor_def exampleVariant_def)

lemma example_result:
  "fst (matchBlocks exampleWorld examplePattern options) = matchedAt exampleVariant exampleAnchor"
  by (simp add: matchBlocks_eq Let_def example_anchor example_find)

section \<open>Properties of matchBlocks\<close>

text \<open>
  Claim C1. For every pattern and world, \<open>matchBlocks\<close> returns the first variant, in the
  order of \<open>generateCombinations\<close>, all of whose blocks the world holds at the anchor,
  with that variant as the combination and the trigger block's location as the centre;
  it returns \<open>{ matched: false }\<close> when no variant matches. Either no variant matches
  and every variant was looked up, or the result is the variant at some index \<open>i\<close>, no
  variant before \<open>i\<close> matches, and the lookups made are those of the variants up to and
  including \<open>i\<close>: the loop stops at the first success.
\<close>

theorem C1_first_matching_variant:
  "let bl = blockTypeId w; base = location (triggerBlock p);
       cs = generateCombinations (pattern p)
   in fst (matchBlocks w p options) =
        (case find (combinationMatches bl base) cs of
           None \<Rightarrow> noMatch
         | Some c \<Rightarrow> matchedAt c base)
      \<and> ((fst (matchBlocks w p options) = noMatch
           \<and> (\<forall>c \<in> set cs. \<not> combinationMatches bl base c)
           \<and> lookups (calls (snd (matchBlocks w p options)))
               = lookups (calls w) @ concat (map (lookupLocations bl base) cs))
          \<or> (\<exists>i < length cs.
                fst (matchBlocks w p options) = matchedAt (cs ! i) base
                \<and> combinationMatches bl base (cs ! i)
                \<and> (\<forall>j < i. \<not> combinationMatches bl base (cs ! j))
                \<and> lookups (calls (snd (matchBlocks w p options)))
                    = lookups (calls w) @ concat (map (lookupLocations bl base) (take (Suc i) cs))))"
proof -
  define bl where "bl = blockTypeId w"
  define base where "base = location (triggerBlock p)"
  define cs where "cs = generateCombinations (pattern p)"
  have res: "fst (matchBlocks w p options) =
        (case find (combinationMatches bl base) cs of
           None \<Rightarrow> noMatch
         | Some c \<Rightarrow> matchedAt c base)"
    by (simp add: matchBlocks_eq Let_def bl_def base_def cs_def split: option.split)
  have look: "lookups (calls (snd (matchBlocks w p options))) =
     lookups (calls w) @ concat (map (lookupLocations bl base) (scanned bl base cs))"
    unfolding bl_def base_def cs_def by (rule matchBlocks_lookups)
  have alt: "(fst (matchBlocks w p options) = noMatch
           \<and> (\<forall>c \<in> set cs. \<not> combinationMatches bl base c)
           \<and> lookups (calls (snd (matchBlocks w p options)))
               = lookups (calls w) @ concat (map (lookupLocations bl base) cs))
          \<or> (\<exists>i < length cs.
                fst (matchBlocks w p options) = matchedAt (cs ! i) base
                \<and> combinationMatches bl base (cs ! i)
                \<and> (\<forall>j < i. \<not> combinationMatches bl base (cs ! j))
                \<and> lookups (calls (snd (matchBlocks w p options)))
                    = lookups (calls w) @ concat (map (lookupLocations bl base) (take (Suc i) cs)))"
  proof (cases "find (combinationMatches bl base) cs")
    case None
    then have none: "\<forall>c \<in> set cs. \<not> combinationMatches bl base c"
      by (rule find_None_all)
    then have tw: "takeWhile (\<lambda>c. \<not> combinationMatches bl base c) cs = cs"
      by simp
    have "scanned bl base cs = cs"
      unfolding scanned_def tw by simp
    with None none res look show ?thesis by simp
  next
    case (Some a)
    let ?i = "length (takeWhile (\<lambda>c. \<not> combinationMatches bl base c) cs)"
    from find_first_index [OF Some]
    have i: "?i < length cs" "cs ! ?i = a" "combinationMatches bl base a"
      "\<forall>j < ?i. \<not> combinationMatches bl base (cs ! j)"
      by simp_all
    have "fst (matchBlocks w p options) = matchedAt (cs ! ?i) base"
      using res Some i(2) by simp
    moreover have "lookups (calls (snd (matchBlocks w p options)))
        = lookups (calls w) @ concat (map (lookupLocations bl base) (take (Suc ?i) cs))"
      using look by (simp add: scanned_def)
    ultimately show ?thesis
      using i by blast
  qed
  from res alt show ?thesis
    unfolding Let_def bl_def base_def cs_def by (rule conjI)
qed

theorem C1_first_matching_variant_witness:
  "fst (matchBlocks exampleWorld examplePattern \<lparr>shouldDestroyBlocks = True\<rparr>)
     = matchedAt exampleVariant exampleAnchor
   \<and> generateCombinations (pattern examplePattern) ! 1 = exampleVariant
   \<and> lookups (calls (snd (matchBlocks exampleWorld examplePattern \<lparr>shouldDestroyBlocks = True\<rparr>)))
       = [\<lparr>x = 10, y = 63, z = - 3\<rparr>, \<lparr>x = 10, y = 65, z = - 3\<rparr>, \<lparr>x = 10, y = 66, z = - 3\<rparr>]"
proof -
  have is_match: "fst (matchBlocks exampleWorld examplePattern \<lparr>shouldDestroyBlocks = True\<rparr>)
     = matchedAt exampleVariant exampleAnchor"
    using C1_first_matching_variant [of exampleWorld examplePattern "\<lparr>shouldDestroyBlocks = True\<rparr>"]
    by (simp add: Let_def example_anchor example_find)
  have second: "generateCombinations (pattern examplePattern) ! 1 = exampleVariant"
    by (simp add: example_variants)
  have "lookups (calls (snd (matchBlocks exampleWorld examplePattern \<lparr>shouldDestroyBlocks = True\<rparr>)))
       = [\<lparr>x = 10, y = 63, z = - 3\<rparr>, \<lparr>x = 10, y = 65, z = - 3\<rparr>, \<lparr>x = 10, y = 66, z = - 3\<rparr>]"
    by (simp add: matchBlocks_lookups example_anchor example_scanned example_lookups_pattern
        example_lookups_variant example_calls)
      (simp add: lookups_def)
  with is_match second show ?thesis by simp
qed

text \<open>
  Claim C2 says that the variants are the candidates (ten rotations, each with four
  reflections) deduplicated by exact structural equality, first occurrences surviving.
  The code does not do that, on two counts. On the pattern written with \<^verbatim>\<open>blockType\<close>
  first it returns two variants that are structurally equal: the caller's list and the
  copy the method builds differ in their text only, where the spec's variants are the
  one. On the pattern with offset \<open>(1, 2, 3)\<close> the mirror across the Y axis of the first
  rotation, \<open>(3, - 2, - 1)\<close>, is a variant of the spec and no variant of the code, whose
  "Reflect across Y-axis" negates the Z coordinate as well. The first variant is the
  pattern itself in both.
\<close>

theorem C2_variants_not_structurally_unique:
  "generateCombinations keyOrderPattern =
     [[\<lparr>offset = (0, 0, 0), blockType = ''a'', keyOrder = BlockTypeFirst\<rparr>],
      [\<lparr>offset = (0, 0, 0), blockType = ''a'', keyOrder = OffsetFirst\<rparr>]]
   \<and> map shape (generateCombinations keyOrderPattern)
       = [[((0, 0, 0), ''a'')], [((0, 0, 0), ''a'')]]
   \<and> \<not> distinct (map shape (generateCombinations keyOrderPattern))
   \<and> specVariants keyOrderPattern = [[((0, 0, 0), ''a'')]]
   \<and> [((3, - 2, - 1), ''a'')] \<in> set (specVariants asymmetricPattern)
   \<and> [((3, - 2, - 1), ''a'')] \<notin> set (map shape (generateCombinations asymmetricPattern))
   \<and> take 1 (generateCombinations keyOrderPattern) = [keyOrderPattern]
   \<and> take 1 (generateCombinations asymmetricPattern) = [asymmetricPattern]"
proof -
  have code1: "generateCombinations keyOrderPattern =
     [[\<lparr>offset = (0, 0, 0), blockType = ''a'', keyOrder = BlockTypeFirst\<rparr>],
      [\<lparr>offset = (0, 0, 0), blockType = ''a'', keyOrder = OffsetFirst\<rparr>]]"
    by (simp add: keyOrderPattern_def generateCombinations_def uniquePatterns_def
        reflections_def rotations_def Set_add_def)
  have shapes: "map shape (generateCombinations keyOrderPattern)
       = [[((0, 0, 0), ''a'')], [((0, 0, 0), ''a'')]]"
    by (simp add: code1 shape_def)
  have dup: "\<not> distinct (map shape (generateCombinations keyOrderPattern))"
    by (simp add: shapes)
  have spec1: "specVariants keyOrderPattern = [[((0, 0, 0), ''a'')]]"
    by (simp add: specVariants_def uniquePatterns_firstOccurrences [symmetric]
        uniquePatterns_def specCandidates_def specRotations_def specReflections_def
        shape_def keyOrderPattern_def Set_add_def)
  have spec2: "[((3, - 2, - 1), ''a'')] \<in> set (specVariants asymmetricPattern)"
    by (simp add: specVariants_def set_firstOccurrences specCandidates_def
        specRotations_def specReflections_def shape_def asymmetricPattern_def)
  have code2: "[((3, - 2, - 1), ''a'')] \<notin> set (map shape (generateCombinations asymmetricPattern))"
    by (simp add: set_generateCombinations reflections_def rotations_def shape_def
        asymmetricPattern_def)
  from code1 shapes dup spec1 spec2 code2 generateCombinations_first [of keyOrderPattern]
    generateCombinations_first [of asymmetricPattern]
  show ?thesis by blast
qed

text \<open>
  Claim C3. When the blocks are to be destroyed and \<open>matchBlocks\<close> returns the combination
  \<open>c\<close>, the calls made after the lookups are, for the anchor and then for each block
  of \<open>c\<close> in order, exactly three: the game rule set to false, the removal of that one
  block, the game rule set to true. The locations removed are the anchor and the
  locations of the blocks of \<open>c\<close>, these read as air afterwards, and every other
  location holds what it held.
\<close>

theorem C3_destroy_matched_blocks:
  assumes "shouldDestroyBlocks options"
    and "combination (fst (matchBlocks w p options)) = Some c"
  shows "let bl = blockTypeId w; base = location (triggerBlock p);
             cs = generateCombinations (pattern p)
         in calls (snd (matchBlocks w p options)) =
              calls w
              @ map GetBlock (concat (map (lookupLocations bl base) (scanned bl base cs)))
              @ concat (map (\<lambda>l. [SetDoTileDrops False, SetblockAirDestroy l, SetDoTileDrops True])
                  (base # map (offsetLocation base) c))
            \<and> removals (calls (snd (matchBlocks w p options))) =
                removals (calls w) @ base # map (offsetLocation base) c
            \<and> blockTypeId (snd (matchBlocks w p options)) =
                (\<lambda>l. if l = base \<or> l \<in> offsetLocation base ` set c
                     then Some ''minecraft:air'' else blockTypeId w l)"
proof -
  from assms(2) have found:
    "find (combinationMatches (blockTypeId w) (location (triggerBlock p)))
       (generateCombinations (pattern p)) = Some c"
    by (simp add: matchBlocks_eq Let_def noMatch_def matchedAt_def split: option.splits)
  have world: "snd (matchBlocks w p options) =
      \<lparr>blockTypeId =
         (\<lambda>l. if l \<in> set (destroyedLocations (location (triggerBlock p)) c)
              then Some ''minecraft:air'' else blockTypeId w l),
       doTileDrops = True,
       calls = (calls w
         @ map GetBlock (concat (map (lookupLocations (blockTypeId w) (location (triggerBlock p)))
             (scanned (blockTypeId w) (location (triggerBlock p))
                (generateCombinations (pattern p))))))
         @ removalCalls (destroyedLocations (location (triggerBlock p)) c)\<rparr>"
    using assms(1) found by (simp add: matchBlocks_eq Let_def destroyBlocks_eq fun_eq_iff)
  have trace: "calls (snd (matchBlocks w p options)) =
      calls w
      @ map GetBlock (concat (map (lookupLocations (blockTypeId w) (location (triggerBlock p)))
          (scanned (blockTypeId w) (location (triggerBlock p))
             (generateCombinations (pattern p)))))
      @ concat (map (\<lambda>l. [SetDoTileDrops False, SetblockAirDestroy l, SetDoTileDrops True])
          (location (triggerBlock p) # map (offsetLocation (location (triggerBlock p))) c))"
    by (simp add: world removalCalls_def destroyedLocations_def)
  have removed: "removals (calls (snd (matchBlocks w p options))) =
      removals (calls w)
      @ location (triggerBlock p) # map (offsetLocation (location (triggerBlock p))) c"
    unfolding world
    by (simp add: removals_append removals_GetBlock removals_removalCalls)
      (simp add: destroyedLocations_def)
  have blocks: "blockTypeId (snd (matchBlocks w p options)) =
      (\<lambda>l. if l = location (triggerBlock p)
               \<or> l \<in> offsetLocation (location (triggerBlock p)) ` set c
           then Some ''minecraft:air'' else blockTypeId w l)"
    by (simp add: world destroyedLocations_def)
  from trace removed blocks show ?thesis
    unfolding Let_def by (intro conjI)
qed

theorem C3_destroy_matched_blocks_witness:
  "shouldDestroyBlocks \<lparr>shouldDestroyBlocks = True\<rparr>
   \<and> combination (fst (matchBlocks exampleWorld examplePattern \<lparr>shouldDestroyBlocks = True\<rparr>))
       = Some exampleVariant
   \<and> calls (snd (matchBlocks exampleWorld examplePattern \<lparr>shouldDestroyBlocks = True\<rparr>)) =
       [GetBlock \<lparr>x = 10, y = 63, z = - 3\<rparr>,
        GetBlock \<lparr>x = 10, y = 65, z = - 3\<rparr>,
        GetBlock \<lparr>x = 10, y = 66, z = - 3\<rparr>,
        SetDoTileDrops False, SetblockAirDestroy \<lparr>x = 10, y = 64, z = - 3\<rparr>, SetDoTileDrops True,
        SetDoTileDrops False, SetblockAirDestroy \<lparr>x = 10, y = 65, z = - 3\<rparr>, SetDoTileDrops True,
        SetDoTileDrops False, SetblockAirDestroy \<lparr>x = 10, y = 66, z = - 3\<rparr>, SetDoTileDrops True]
   \<and> removals (calls (snd (matchBlocks exampleWorld examplePattern \<lparr>shouldDestroyBlocks = True\<rparr>)))
       = [\<lparr>x = 10, y = 64, z = - 3\<rparr>, \<lparr>x = 10, y = 65, z = - 3\<rparr>, \<lparr>x = 10, y = 66, z = - 3\<rparr>]"
proof -
  have destroy: "shouldDestroyBlocks \<lparr>shouldDestroyBlocks = True\<rparr>"
    by simp
  have found: "combination (fst (matchBlocks exampleWorld examplePattern \<lparr>shouldDestroyBlocks = True\<rparr>))
       = Some exampleVariant"
    by (simp add: example_result matchedAt_def)
  have empty: "removals [] = []"
    by (simp add: removals_def)
  from C3_destroy_matched_blocks [OF destroy found]
  have "calls (snd (matchBlocks exampleWorld examplePattern \<lparr>shouldDestroyBlocks = True\<rparr>)) =
       [GetBlock \<lparr>x = 10, y = 63, z = - 3\<rparr>,
        GetBlock \<lparr>x = 10, y = 65, z = - 3\<rparr>,
        GetBlock \<lparr>x = 10, y = 66, z = - 3\<rparr>,
        SetDoTileDrops False, SetblockAirDestroy \<lparr>x = 10, y = 64, z = - 3\<rparr>, SetDoTileDrops True,
        SetDoTileDrops False, SetblockAirDestroy \<lparr>x = 10, y = 65, z = - 3\<rparr>, SetDoTileDrops True,
        SetDoTileDrops False, SetblockAirDestroy \<lparr>x = 10, y = 66, z = - 3\<rparr>, SetDoTileDrops True]
     \<and> removals (calls (snd (matchBlocks exampleWorld examplePattern \<lparr>shouldDestroyBlocks = True\<rparr>)))
       = [\<lparr>x = 10, y = 64, z = - 3\<rparr>, \<lparr>x = 10, y = 65, z = - 3\<rparr>, \<lparr>x = 10, y = 66, z = - 3\<rparr>]"
    by (simp add: Let_def example_anchor example_scanned example_lookups_pattern
        example_lookups_variant example_calls empty)
      (simp add: offsetLocation_def exampleAnchor_def exampleVariant_def removals_def)
  with destroy found show ?thesis
    by blast
qed

text \<open>
  Claim C4. When the blocks are not to be destroyed, the world after \<open>matchBlocks\<close> is the
  world before it with lookups appended to the calls made: the blocks and the game rule
  are unchanged, no block is removed and the game rule is never set, whether or not a
  variant matches.
\<close>

theorem C4_no_destroy_frame:
  assumes "\<not> shouldDestroyBlocks options"
  shows "snd (matchBlocks w p options) =
           w\<lparr>calls := calls w
               @ map GetBlock
                   (concat (map (lookupLocations (blockTypeId w) (location (triggerBlock p)))
                      (scanned (blockTypeId w) (location (triggerBlock p))
                         (generateCombinations (pattern p)))))\<rparr>
         \<and> blockTypeId (snd (matchBlocks w p options)) = blockTypeId w
         \<and> doTileDrops (snd (matchBlocks w p options)) = doTileDrops w
         \<and> removals (calls (snd (matchBlocks w p options))) = removals (calls w)
         \<and> filter (\<lambda>k. k = SetDoTileDrops False \<or> k = SetDoTileDrops True)
              (calls (snd (matchBlocks w p options)))
            = filter (\<lambda>k. k = SetDoTileDrops False \<or> k = SetDoTileDrops True) (calls w)"
proof -
  have flt: "filter (\<lambda>k. k = SetDoTileDrops False \<or> k = SetDoTileDrops True) (map GetBlock ls) = []"
    for ls by (induction ls) simp_all
  show ?thesis
    using assms
    by (simp add: matchBlocks_eq Let_def removals_append removals_GetBlock flt
        split: option.split)
qed

theorem C4_no_destroy_frame_witness:
  "\<not> shouldDestroyBlocks \<lparr>shouldDestroyBlocks = False\<rparr>
   \<and> snd (matchBlocks exampleWorld examplePattern \<lparr>shouldDestroyBlocks = False\<rparr>) =
       exampleWorld\<lparr>calls := [GetBlock \<lparr>x = 10, y = 63, z = - 3\<rparr>,
                               GetBlock \<lparr>x = 10, y = 65, z = - 3\<rparr>,
                               GetBlock \<lparr>x = 10, y = 66, z = - 3\<rparr>]\<rparr>
   \<and> fst (matchBlocks exampleWorld examplePattern \<lparr>shouldDestroyBlocks = False\<rparr>)
       = matchedAt exampleVariant exampleAnchor"
proof -
  have keep: "\<not> shouldDestroyBlocks \<lparr>shouldDestroyBlocks = False\<rparr>"
    by simp
  from C4_no_destroy_frame [OF keep, of exampleWorld examplePattern]
  have "snd (matchBlocks exampleWorld examplePattern \<lparr>shouldDestroyBlocks = False\<rparr>) =
       exampleWorld\<lparr>calls := [GetBlock \<lparr>x = 10, y = 63, z = - 3\<rparr>,
                               GetBlock \<lparr>x = 10, y = 65, z = - 3\<rparr>,
                               GetBlock \<lparr>x = 10, y = 66, z = - 3\<rparr>]\<rparr>"
    by (simp add: example_anchor example_scanned example_lookups_pattern
        example_lookups_variant example_calls)
  with keep show ?thesis by (simp add: example_result)
qed

text \<open>
  Claim C5. \<open>checkCombination\<close> looks up the blocks of a combination in order up to and
  including the first one whose observed type is absent or differs, and no block after
  it; so it makes at most as many lookups as the combination has blocks. \<open>matchBlocks\<close>
  looks up the variants that do not match before the first one that does, then that
  one, and no variant after it.
\<close>

theorem C5_short_circuit:
  "let bl = blockTypeId w; base = location (triggerBlock p);
       cs = generateCombinations (pattern p)
   in checkCombination w base c =
        (combinationMatches bl base c,
         w\<lparr>calls := calls w
             @ map GetBlock (map (offsetLocation base)
                 (take (Suc (length (takeWhile (blockMatches bl base) c))) c))\<rparr>)
      \<and> length (lookupLocations bl base c) \<le> length c
      \<and> lookups (calls (snd (matchBlocks w p options))) =
          lookups (calls w)
          @ concat (map (lookupLocations bl base)
              (takeWhile (\<lambda>c. \<not> combinationMatches bl base c) cs
               @ (case find (combinationMatches bl base) cs of None \<Rightarrow> [] | Some c \<Rightarrow> [c])))"
  unfolding Let_def
  by (intro conjI)
    (simp add: checkCombination_eq lookupLocations_def,
     simp add: lookupLocations_def,
     simp only: matchBlocks_lookups scanned_find)

theorem C5_short_circuit_witness:
  "length (pattern examplePattern) = 2
   \<and> \<not> combinationMatches (blockTypeId exampleWorld) exampleAnchor (pattern examplePattern)
   \<and> checkCombination exampleWorld exampleAnchor (pattern examplePattern) =
       (False, exampleWorld\<lparr>calls := [GetBlock \<lparr>x = 10, y = 63, z = - 3\<rparr>]\<rparr>)
   \<and> length (generateCombinations (pattern examplePattern)) = 6
   \<and> lookups (calls (snd (matchBlocks exampleWorld examplePattern \<lparr>shouldDestroyBlocks = False\<rparr>)))
       = [\<lparr>x = 10, y = 63, z = - 3\<rparr>, \<lparr>x = 10, y = 65, z = - 3\<rparr>, \<lparr>x = 10, y = 66, z = - 3\<rparr>]"
proof -
  have empty: "lookups [] = []"
    by (simp add: lookups_def)
  have prefix: "map (offsetLocation exampleAnchor)
      (take (Suc (length (takeWhile (blockMatches (blockTypeId exampleWorld) exampleAnchor)
         (pattern examplePattern)))) (pattern examplePattern)) = [\<lparr>x = 10, y = 63, z = - 3\<rparr>]"
    using example_lookups_pattern by (simp add: lookupLocations_def)
  from C5_short_circuit [of exampleWorld examplePattern "pattern examplePattern"
      "\<lparr>shouldDestroyBlocks = False\<rparr>"]
  have "checkCombination exampleWorld exampleAnchor (pattern examplePattern) =
       (False, exampleWorld\<lparr>calls := [GetBlock \<lparr>x = 10, y = 63, z = - 3\<rparr>]\<rparr>)
     \<and> lookups (calls (snd (matchBlocks exampleWorld examplePattern \<lparr>shouldDestroyBlocks = False\<rparr>)))
       = [\<lparr>x = 10, y = 63, z = - 3\<rparr>, \<lparr>x = 10, y = 65, z = - 3\<rparr>, \<lparr>x = 10, y = 66, z = - 3\<rparr>]"
    unfolding Let_def example_anchor prefix example_find
    by (simp add: example_pattern_fails example_variants example_variant_matches
        example_lookups_pattern example_lookups_variant example_calls empty)
  then show ?thesis
    by (simp add: example_pattern_fails example_variants) (simp add: examplePattern_def)
qed

text \<open>
  Claim C6. For the empty pattern the 40 candidates are all empty and collapse to the
  single empty variant; \<open>matchBlocks\<close> returns a match with the empty combination and
  the trigger block's location, having looked up nothing (and having destroyed the
  anchor block alone when asked to destroy).
\<close>

theorem C6_empty_pattern:
  "generateCombinations [] = [[]]
   \<and> length (reflections (rotations [])) = 40
   \<and> set (reflections (rotations [])) = {[]}
   \<and> fst (matchBlocks w (p\<lparr>pattern := []\<rparr>) options) = matchedAt [] (location (triggerBlock p))
   \<and> snd (matchBlocks w (p\<lparr>pattern := []\<rparr>) options) =
       (if shouldDestroyBlocks options then destroyBlock w (location (triggerBlock p)) else w)"
proof -
  have "set (reflections (rotations [])) = {[]}"
    by (simp add: reflections_def rotations_def)
  moreover have "length (reflections (rotations [])) = 40"
    by (rule length_reflections_rotations)
  moreover have "matchBlocks w (p\<lparr>pattern := []\<rparr>) options =
      (matchedAt [] (location (triggerBlock p)),
       if shouldDestroyBlocks options then destroyBlock w (location (triggerBlock p)) else w)"
    by (simp add: matchBlocks_def generateCombinations_Nil matchedAt_def destroyBlocks_def)
  ultimately show ?thesis
    by (simp add: generateCombinations_Nil)
qed

text \<open>
  Claim C7. When the world has no block at the location of some block of a combination,
  \<open>checkCombination\<close> returns false for it and \<open>matchBlocks\<close> does not return it: the
  call still returns a result, which is \<open>{ matched: false }\<close> or a variant that matches.
\<close>

theorem C7_absent_block_is_non_match:
  assumes "b \<in> set c"
    and "blockTypeId w (offsetLocation (location (triggerBlock p)) b) = None"
  shows "\<not> fst (checkCombination w (location (triggerBlock p)) c)
         \<and> fst (matchBlocks w p options) \<noteq> matchedAt c (location (triggerBlock p))
         \<and> (fst (matchBlocks w p options) = noMatch
             \<or> (\<exists>c'. fst (matchBlocks w p options) = matchedAt c' (location (triggerBlock p))
                    \<and> combinationMatches (blockTypeId w) (location (triggerBlock p)) c'))"
proof -
  have "\<not> blockMatches (blockTypeId w) (location (triggerBlock p)) b"
    using assms(2) by (simp add: blockMatches_def)
  with assms(1) have no: "\<not> combinationMatches (blockTypeId w) (location (triggerBlock p)) c"
    by (auto simp: combinationMatches_def list_all_iff)
  have res: "fst (matchBlocks w p options) = noMatch
     \<or> (\<exists>c'. fst (matchBlocks w p options) = matchedAt c' (location (triggerBlock p))
            \<and> combinationMatches (blockTypeId w) (location (triggerBlock p)) c')"
    by (auto simp: matchBlocks_eq Let_def find_Some_iff split: option.split)
  have "fst (matchBlocks w p options) \<noteq> matchedAt c (location (triggerBlock p))"
    using res no by (auto simp: noMatch_def matchedAt_def)
  with no res show ?thesis
    by (simp add: checkCombination_eq)
qed

theorem C7_absent_block_is_non_match_witness:
  "\<lparr>offset = (0, - 1, 0), blockType = ''minecraft:iron_block'', keyOrder = OffsetFirst\<rparr> \<in> set (pattern examplePattern)
   \<and> blockTypeId exampleWorld
        (offsetLocation (location (triggerBlock examplePattern))
           \<lparr>offset = (0, - 1, 0), blockType = ''minecraft:iron_block'', keyOrder = OffsetFirst\<rparr>) = None
   \<and> \<not> fst (checkCombination exampleWorld (location (triggerBlock examplePattern))
            (pattern examplePattern))
   \<and> fst (matchBlocks exampleWorld examplePattern \<lparr>shouldDestroyBlocks = False\<rparr>)
       \<noteq> matchedAt (pattern examplePattern) (location (triggerBlock examplePattern))"
proof -
  have member: "\<lparr>offset = (0, - 1, 0), blockType = ''minecraft:iron_block'', keyOrder = OffsetFirst\<rparr>
      \<in> set (pattern examplePattern)"
    by (simp add: examplePattern_def)
  have absent: "blockTypeId exampleWorld
        (offsetLocation (location (triggerBlock examplePattern))
           \<lparr>offset = (0, - 1, 0), blockType = ''minecraft:iron_block'', keyOrder = OffsetFirst\<rparr>) = None"
    by (simp add: example_anchor offsetLocation_def exampleWorld_def exampleAnchor_def)
  from C7_absent_block_is_non_match [OF member absent, of "\<lparr>shouldDestroyBlocks = False\<rparr>"]
    member absent
  show ?thesis by simp
qed

text \<open>
  Claim C10. After \<open>destroyBlock\<close> and after \<open>destroyBlocks\<close> the game rule
  \<open>doTileDrops\<close> is true whatever it was before; so a call of \<open>matchBlocks\<close> that is to
  destroy the blocks and finds a match leaves it true.
\<close>

theorem C10_flag_left_enabled:
  assumes "shouldDestroyBlocks options"
    and "matched (fst (matchBlocks w p options))"
  shows "doTileDrops (snd (matchBlocks w p options))
         \<and> doTileDrops (destroyBlock v l)
         \<and> doTileDrops (destroyBlocks v l c)"
  using assms
  by (simp add: matchBlocks_eq Let_def destroyBlocks_eq destroyBlock_eq noMatch_def
      split: option.splits)

theorem C10_flag_left_enabled_witness:
  "shouldDestroyBlocks \<lparr>shouldDestroyBlocks = True\<rparr>
   \<and> matched (fst (matchBlocks exampleWorld examplePattern \<lparr>shouldDestroyBlocks = True\<rparr>))
   \<and> doTileDrops exampleWorld = False
   \<and> doTileDrops (snd (matchBlocks exampleWorld examplePattern \<lparr>shouldDestroyBlocks = True\<rparr>))"
proof -
  have destroy: "shouldDestroyBlocks \<lparr>shouldDestroyBlocks = True\<rparr>"
    by simp
  have found: "matched (fst (matchBlocks exampleWorld examplePattern \<lparr>shouldDestroyBlocks = True\<rparr>))"
    by (simp add: example_result matchedAt_def)
  have before: "doTileDrops exampleWorld = False"
    by (simp add: exampleWorld_def)
  from C10_flag_left_enabled [OF destroy found] destroy found before
  show ?thesis by simp
qed

section \<open>Errors of Vector3\<close>



section \<open>Rounding in magnitude\<close>

lemma roundTiesToEven_small: "0 \<le> q \<Longrightarrow> q < 1 / 2 \<Longrightarrow> roundTiesToEven q = 0"
proof -
  assume a: "0 \<le> q" "q < 1 / 2"
  then have "\<lfloor>q\<rfloor> = 0" by (simp add: floor_eq_iff)
  with a show ?thesis by (simp add: roundTiesToEven_def)
qed

lemma roundTiesToEven_int: "roundTiesToEven (of_int n) = n"
  by (simp add: roundTiesToEven_def)

lemma floor_log2:
  assumes "2 powr of_int k \<le> r" and "r < 2 powr (of_int k + 1)"
  shows "\<lfloor>log 2 r\<rfloor> = k"
proof -
  have "0 < (2::real) powr of_int k"
    by simp
  with assms(1) have pos: "0 < r"
    by linarith
  have "of_int k \<le> log 2 r"
    using assms(1) pos by (simp add: le_log_iff)
  moreover have "log 2 r < of_int k + 1"
    using assms(2) pos by (simp add: log_less_iff)
  ultimately show ?thesis
    by (simp add: floor_eq_iff)
qed

lemma ulpExponent_subnormal:
  assumes "0 < r" and "r < 2 powr (- 1075)"
  shows "ulpExponent r = - 1074"
proof -
  have "log 2 r < - 1075"
    using assms by (simp add: log_less_iff)
  then have "\<lfloor>log 2 r\<rfloor> < - 1075"
    by (simp add: floor_less_iff)
  then have "\<lfloor>log 2 r\<rfloor> - 52 \<le> - 1074"
    by linarith
  then show ?thesis
    by (simp only: ulpExponent_def abs_of_pos [OF assms(1)] max_absorb2)
qed

text \<open>Underflow: a positive real below half the least positive double rounds to zero.\<close>

lemma toDouble_underflow:
  assumes "0 < r" and "r < 2 powr (- 1075)"
  shows "toDouble r = Finite 0"
proof -
  have e: "ulpExponent r = - 1074"
    using assms by (rule ulpExponent_subnormal)
  have "r / 2 powr (- 1074) < 2 powr (- 1075) / 2 powr (- 1074)"
    using assms(2) by (simp add: divide_strict_right_mono)
  also have "2 powr (- 1075) / 2 powr (- 1074) = (1 / 2 :: real)"
    by (simp add: powr_diff [symmetric])
  finally have "r / 2 powr (- 1074) < 1 / 2" .
  moreover have "0 \<le> r / 2 powr (- 1074)"
    using assms(1) by simp
  ultimately have "roundTiesToEven (r / 2 powr (- 1074)) = 0"
    by (intro roundTiesToEven_small)
  then show ?thesis
    using assms(1) by (simp add: toDouble_def e Let_def)
qed

lemma toDouble_zero: "toDouble 0 = Finite 0"
  by (simp add: toDouble_def)

lemma number_square_zero: "number_square 0 = Finite 0"
  by (simp add: number_square_def toDouble_zero)

lemma exponent_717: "(2::real) powr of_int (- 717) = 1 / 2 ^ 717"
  by (simp add: powr_minus_divide powr_realpow [symmetric])

lemma binade_665:
  "(2::real) powr of_int (- 665) = 1 / 2 ^ 665"
  "(2::real) powr (of_int (- 665) + 1) = 1 / 2 ^ 664"
  by (simp_all add: powr_minus_divide powr_realpow [symmetric])

lemma tiny_value: "of_int 6894565328877484 * 2 powr of_int (- 717) = x tinyVector"
  unfolding exponent_717 by (simp add: tinyVector_def)

lemma tiny_finite: "\<not> 2 ^ 1024 \<le> \<bar>x tinyVector\<bar>"
  by (simp add: tinyVector_def)

lemma tiny_is_double: "toDouble (x tinyVector) = Finite (x tinyVector)"
proof -
  have "\<lfloor>log 2 (x tinyVector)\<rfloor> = - 665"
    by (rule floor_log2) (simp_all only: binade_665, simp_all add: tinyVector_def)
  moreover have "0 < x tinyVector"
    by (simp add: tinyVector_def)
  ultimately have e: "ulpExponent (x tinyVector) = - 717"
    by (simp add: ulpExponent_def)
  have "x tinyVector / 2 powr of_int (- 717) = of_int 6894565328877484"
    unfolding exponent_717 by (simp add: tinyVector_def)
  then have r: "roundTiesToEven (x tinyVector / 2 powr of_int (- 717)) = 6894565328877484"
    by (simp only: roundTiesToEven_int)
  have "x tinyVector \<noteq> 0"
    by (simp add: tinyVector_def)
  then show ?thesis
    unfolding toDouble_def e Let_def r tiny_value using tiny_finite by simp
qed

lemma tiny_is_literal: "toDouble (1 / 10 ^ 200) = Finite (x tinyVector)"
proof -
  have "\<lfloor>log 2 (1 / 10 ^ 200)\<rfloor> = - 665"
    by (rule floor_log2) (simp_all only: binade_665, simp_all)
  then have e: "ulpExponent (1 / 10 ^ 200) = - 717"
    by (simp add: ulpExponent_def)
  have q: "(1 / 10 ^ 200) / 2 powr of_int (- 717) = (2 ^ 717 / 10 ^ 200 :: real)"
    unfolding exponent_717 by simp
  have fl: "\<lfloor>2 ^ 717 / 10 ^ 200 :: real\<rfloor> = 6894565328877484"
    by (simp add: floor_eq_iff)
  have "(2 ^ 717 / 10 ^ 200 :: real) - of_int 6894565328877484 < 1 / 2"
    by simp
  then have r: "roundTiesToEven (2 ^ 717 / 10 ^ 200) = 6894565328877484"
    unfolding roundTiesToEven_def Let_def fl by (simp only: if_True)
  have "(1 / 10 ^ 200 :: real) \<noteq> 0"
    by simp
  then show ?thesis
    unfolding toDouble_def e Let_def q r tiny_value using tiny_finite by (simp only: if_False)
qed

lemma tiny_square_underflows: "number_square (x tinyVector) = Finite 0"
  unfolding number_square_def
proof (rule toDouble_underflow)
  show "0 < x tinyVector * x tinyVector"
    by (simp add: tinyVector_def)
  have "(2::real) powr (- 1075) = 1 / 2 ^ 1075"
    by (simp add: powr_minus_divide powr_realpow [symmetric])
  then show "x tinyVector * x tinyVector < 2 powr (- 1075)"
    by (simp add: tinyVector_def)
qed

text \<open>
  Claim C9 says that the magnitude of a vector is zero exactly when its three components
  are zero. The zero vector has magnitude zero, but the converse fails on the code: for
  \<^verbatim>\<open>new Vector3(1e-200, 0, 0)\<close> the square of the first component underflows to zero,
  so \<^verbatim>\<open>magnitude()\<close> returns \<open>0\<close> for a vector whose first component is not zero and
  whose length, computed exactly, is not zero.
\<close>

theorem C9_magnitude_of_nonzero_vector_is_zero:
  "toDouble (1 / 10 ^ 200) = Finite (x tinyVector)
   \<and> toDouble (x tinyVector) = Finite (x tinyVector)
   \<and> y tinyVector = 0 \<and> z tinyVector = 0
   \<and> x tinyVector \<noteq> 0
   \<and> number_square (x tinyVector) = Finite 0
   \<and> Vector3_magnitude_double tinyVector = Finite 0
   \<and> Vector3_magnitude tinyVector \<noteq> 0
   \<and> Vector3_magnitude_double \<lparr>x = 0, y = 0, z = 0\<rparr> = Finite 0"
proof -
  have yz: "y tinyVector = 0" "z tinyVector = 0"
    by (simp_all add: tinyVector_def)
  have nz: "x tinyVector \<noteq> 0"
    by (simp add: tinyVector_def)
  have mag: "Vector3_magnitude_double tinyVector = Finite 0"
    by (simp add: Vector3_magnitude_double_def tiny_square_underflows yz number_square_zero
        number_add_def number_sqrt_def toDouble_zero)
  have exact: "Vector3_magnitude tinyVector \<noteq> 0"
    by (simp add: Vector3_magnitude_def tinyVector_def)
  have zero: "Vector3_magnitude_double \<lparr>x = 0, y = 0, z = 0\<rparr> = Finite 0"
    by (simp add: Vector3_magnitude_double_def number_square_zero number_add_def
        number_sqrt_def toDouble_zero)
  from tiny_is_literal tiny_is_double yz nz tiny_square_underflows mag exact zero
  show ?thesis by blast
qed

end
